theory Spec2Isabelle
  imports Main "HOL-Library.Word" "HOL-Library.Char_ord" "HOL-Library.List_Lexorder"
begin

unbundle bit_operations_syntax

section \<open>The library function: \<^verbatim>\<open>hashlib.sha256\<close>\<close>

text \<open>
  The script calls \<^verbatim>\<open>hashlib.sha256\<close>, which computes SHA-256 as laid down in
  FIPS 180-4. A 32-bit word is a natural number below \<open>2 ^ 32\<close>; every addition is
  reduced modulo \<open>2 ^ 32\<close> where the standard says so.
\<close>

type_synonym byte = "8 word"
type_synonym u32 = nat

text \<open>
  The round constants are the first 32 bits of the fractional parts of the cube roots of
  the first 64 primes, the initial hash value those of the square roots of the first 8.
\<close>

definition K256 :: "u32 list" where
  "K256 =
   [1116352408, 1899447441, 3049323471, 3921009573, 961987163, 1508970993,
    2453635748, 2870763221, 3624381080, 310598401, 607225278, 1426881987,
    1925078388, 2162078206, 2614888103, 3248222580, 3835390401, 4022224774,
    264347078, 604807628, 770255983, 1249150122, 1555081692, 1996064986,
    2554220882, 2821834349, 2952996808, 3210313671, 3336571891, 3584528711,
    113926993, 338241895, 666307205, 773529912, 1294757372, 1396182291,
    1695183700, 1986661051, 2177026350, 2456956037, 2730485921, 2820302411,
    3259730800, 3345764771, 3516065817, 3600352804, 4094571909, 275423344,
    430227734, 506948616, 659060556, 883997877, 958139571, 1322822218,
    1537002063, 1747873779, 1955562222, 2024104815, 2227730452, 2361852424,
    2428436474, 2756734187, 3204031479, 3329325298]"

definition H256_init :: "u32 list" where
  "H256_init =
   [1779033703, 3144134277, 1013904242, 2773480762,
    1359893119, 2600822924, 528734635, 1541459225]"

definition add32 :: "u32 \<Rightarrow> u32 \<Rightarrow> u32" where
  "add32 x y = (x + y) mod 2 ^ 32"

definition not32 :: "u32 \<Rightarrow> u32" where
  "not32 x = 4294967295 - x mod 2 ^ 32"

definition shr :: "nat \<Rightarrow> u32 \<Rightarrow> u32" where
  "shr n x = x div 2 ^ n"

definition rotr :: "nat \<Rightarrow> u32 \<Rightarrow> u32" where
  "rotr n x = (x div 2 ^ n) OR ((x * 2 ^ (32 - n)) mod 2 ^ 32)"

definition Ch :: "u32 \<Rightarrow> u32 \<Rightarrow> u32 \<Rightarrow> u32" where
  "Ch x y z = (x AND y) XOR (not32 x AND z)"

definition Maj :: "u32 \<Rightarrow> u32 \<Rightarrow> u32 \<Rightarrow> u32" where
  "Maj x y z = (x AND y) XOR (x AND z) XOR (y AND z)"

definition big_sigma0 :: "u32 \<Rightarrow> u32" where
  "big_sigma0 x = rotr 2 x XOR rotr 13 x XOR rotr 22 x"

definition big_sigma1 :: "u32 \<Rightarrow> u32" where
  "big_sigma1 x = rotr 6 x XOR rotr 11 x XOR rotr 25 x"

definition small_sigma0 :: "u32 \<Rightarrow> u32" where
  "small_sigma0 x = rotr 7 x XOR rotr 18 x XOR shr 3 x"

definition small_sigma1 :: "u32 \<Rightarrow> u32" where
  "small_sigma1 x = rotr 17 x XOR rotr 19 x XOR shr 10 x"

text \<open>Cutting a byte string into pieces of \<open>n\<close> bytes; the last piece may be shorter.\<close>

function chunks_of :: "nat \<Rightarrow> 'a list \<Rightarrow> 'a list list" where
  "chunks_of n xs = (if n = 0 \<or> xs = [] then [] else take n xs # chunks_of n (drop n xs))"
  by pat_completeness auto
termination
  by (relation "measure (\<lambda>(n, xs). length xs)") auto

declare chunks_of.simps [simp del]

definition be_bytes :: "nat \<Rightarrow> byte list" where
  "be_bytes v = map (\<lambda>i. of_nat (v div 256 ^ i)) [7, 6, 5, 4, 3, 2, 1, 0]"

definition sha256_pad :: "byte list \<Rightarrow> byte list" where
  "sha256_pad msg =
     msg @ [0x80] @ replicate ((119 - length msg mod 64) mod 64) 0 @ be_bytes (8 * length msg)"

definition be_word :: "byte list \<Rightarrow> u32" where
  "be_word bs = foldl (\<lambda>acc b. 256 * acc + unat b) 0 bs"

definition block_words :: "byte list \<Rightarrow> u32 list" where
  "block_words blk = map be_word (chunks_of 4 blk)"

definition next_word :: "u32 list \<Rightarrow> nat \<Rightarrow> u32 list" where
  "next_word ws t =
     ws @ [add32 (add32 (add32 (small_sigma1 (ws ! (t - 2))) (ws ! (t - 7)))
                        (small_sigma0 (ws ! (t - 15)))) (ws ! (t - 16))]"

definition schedule :: "u32 list \<Rightarrow> u32 list" where
  "schedule ws = foldl next_word ws [16..<64]"

type_synonym regs = "u32 \<times> u32 \<times> u32 \<times> u32 \<times> u32 \<times> u32 \<times> u32 \<times> u32"

fun round256 :: "regs \<Rightarrow> u32 \<times> u32 \<Rightarrow> regs" where
  "round256 (a, b, c, d, e, f, g, h) (k, w) =
     (let t1 = add32 (add32 (add32 (add32 h (big_sigma1 e)) (Ch e f g)) k) w;
          t2 = add32 (big_sigma0 a) (Maj a b c)
      in (add32 t1 t2, a, b, c, add32 d t1, e, f, g))"

fun regs_list :: "regs \<Rightarrow> u32 list" where
  "regs_list (a, b, c, d, e, f, g, h) = [a, b, c, d, e, f, g, h]"

definition regs_of :: "u32 list \<Rightarrow> regs" where
  "regs_of hs = (hs ! 0, hs ! 1, hs ! 2, hs ! 3, hs ! 4, hs ! 5, hs ! 6, hs ! 7)"

definition compress :: "u32 list \<Rightarrow> byte list \<Rightarrow> u32 list" where
  "compress hs blk =
     map2 add32 hs
       (regs_list (foldl round256 (regs_of hs) (zip K256 (schedule (block_words blk)))))"

definition hexdigits :: string where
  "hexdigits = ''0123456789abcdef''"

definition hex_digit :: "nat \<Rightarrow> char" where
  "hex_digit n = hexdigits ! (n mod 16)"

definition hex_word :: "u32 \<Rightarrow> string" where
  "hex_word w = map (\<lambda>s. hex_digit (w div 2 ^ s)) [28, 24, 20, 16, 12, 8, 4, 0]"

definition sha256_hex :: "byte list \<Rightarrow> string" where
  "sha256_hex msg =
     concat (map hex_word (foldl compress H256_init (chunks_of 64 (sha256_pad msg))))"

text \<open>
  A hash object of \<^verbatim>\<open>hashlib\<close> holds the bytes it has been fed so far:
  \<^verbatim>\<open>update\<close> appends a chunk, \<^verbatim>\<open>hexdigest\<close> is the digest of the whole.
\<close>

type_synonym hash_obj = "byte list"

definition sha256_new :: hash_obj where
  "sha256_new = []"

definition update :: "hash_obj \<Rightarrow> byte list \<Rightarrow> hash_obj" where
  "update h chunk = h @ chunk"

definition hexdigest :: "hash_obj \<Rightarrow> string" where
  "hexdigest h = sha256_hex h"

section \<open>The file system the script works on\<close>

text \<open>
  The script touches two places: the directory \<^verbatim>\<open>AUDIO_DIR\<close> and the file
  \<^verbatim>\<open>OUTPUT_FILE\<close> beside it. A directory is an association list from entry names
  to entries, in the order the operating system lists them; an entry is a regular file
  with its bytes or a subdirectory (the flag says whether it is empty). Every path the
  script builds is \<^verbatim>\<open>AUDIO_DIR / name\<close>, so a path is its name. Renaming follows
  POSIX \<^verbatim>\<open>rename(2)\<close>, which \<^verbatim>\<open>Path.rename\<close> calls: an existing regular file
  at the destination is replaced silently.
\<close>

type_synonym content = "byte list"

datatype entry = File content | Dir bool

type_synonym directory = "(string \<times> entry) list"

datatype py_error =
  FileNotFoundError | IsADirectoryError | NotADirectoryError | DirectoryNotEmpty

datatype document = Json_list "string list" | Raw content

datatype diagnostic = Audio_directory_not_found | No_mp3_files_found

datatype info = Found nat | Renamed nat | Wrote nat

datatype exit_status = Returned | SysExit nat | Uncaught py_error

record world =
  audio_dir :: "directory option"
  output_file :: "document option"
  stdout :: "info list"
  stderr :: "diagnostic list"

definition exists_path :: "directory \<Rightarrow> string \<Rightarrow> bool" where
  "exists_path d name = (map_of d name \<noteq> None)"

definition move_entry :: "directory \<Rightarrow> string \<Rightarrow> string \<Rightarrow> entry \<Rightarrow> directory" where
  "move_entry d src dst e = (dst, e) # filter (\<lambda>p. fst p \<noteq> src \<and> fst p \<noteq> dst) d"

definition rename :: "directory \<Rightarrow> string \<Rightarrow> string \<Rightarrow> py_error + directory" where
  "rename d src dst =
     (case map_of d src of
        None \<Rightarrow> Inl FileNotFoundError
      | Some e \<Rightarrow>
          if src = dst then Inr d
          else (case (e, map_of d dst) of
                  (_, None) \<Rightarrow> Inr (move_entry d src dst e)
                | (File _, Some (File _)) \<Rightarrow> Inr (move_entry d src dst e)
                | (File _, Some (Dir _)) \<Rightarrow> Inl IsADirectoryError
                | (Dir _, Some (File _)) \<Rightarrow> Inl NotADirectoryError
                | (Dir _, Some (Dir emp)) \<Rightarrow>
                    if emp then Inr (move_entry d src dst e) else Inl DirectoryNotEmpty))"

section \<open>The script\<close>

definition HASH_LEN :: nat where
  "HASH_LEN = 12"

text \<open>
  \<^verbatim>\<open>sha256_of_file\<close>: the file is read in chunks of 8192 bytes until a read returns
  nothing, and each chunk is fed to the hash object. Opening a missing path or a directory
  raises.
\<close>

definition sha256_of_file :: "directory \<Rightarrow> string \<Rightarrow> py_error + string" where
  "sha256_of_file d path =
     (case map_of d path of
        None \<Rightarrow> Inl FileNotFoundError
      | Some (Dir _) \<Rightarrow> Inl IsADirectoryError
      | Some (File bytes) \<Rightarrow> Inr (hexdigest (foldl update sha256_new (chunks_of 8192 bytes))))"

text \<open>
  \<^verbatim>\<open>Path(name).stem\<close> for a bare file name: the name up to its last dot, unless that
  dot is the first or the last character or there is none (\<^verbatim>\<open>str.rfind\<close> gives
  \<open>-1\<close> then).
\<close>

fun rfind :: "char \<Rightarrow> string \<Rightarrow> int" where
  "rfind c [] = -1"
| "rfind c (x # xs) =
     (let r = rfind c xs in if 0 \<le> r then r + 1 else if x = c then 0 else -1)"

definition stem :: "string \<Rightarrow> string" where
  "stem name =
     (let i = rfind (CHR ''.'') name
      in if 0 < i \<and> i < int (length name) - 1 then take (nat i) name else name)"

definition is_already_hashed :: "string \<Rightarrow> bool" where
  "is_already_hashed name =
     (length (stem name) = HASH_LEN \<and> list_all (\<lambda>c. c \<in> set hexdigits) (stem name))"

text \<open>\<^verbatim>\<open>AUDIO_DIR.glob("*.mp3")\<close>: the entries whose name ends in \<^verbatim>\<open>.mp3\<close>.\<close>

definition endswith :: "string \<Rightarrow> string \<Rightarrow> bool" where
  "endswith s suf = (length suf \<le> length s \<and> drop (length s - length suf) s = suf)"

definition glob_mp3 :: "directory \<Rightarrow> string list" where
  "glob_mp3 d = filter (\<lambda>name. endswith name ''.mp3'') (map fst d)"

record loop_state =
  dir :: directory
  filenames :: "string list"
  renamed_count :: nat

text \<open>Lines 74 to 76: the rename, the counter and the manifest entry.\<close>

definition rename_and_record :: "loop_state \<Rightarrow> string \<Rightarrow> string \<Rightarrow> py_error + loop_state" where
  "rename_and_record s mp3 new_name =
     (case rename (dir s) mp3 new_name of
        Inl err \<Rightarrow> Inl err
      | Inr d' \<Rightarrow>
          Inr \<lparr>dir = d', filenames = filenames s @ [new_name],
               renamed_count = renamed_count s + 1\<rparr>)"

text \<open>The body of the \<^verbatim>\<open>for mp3 in mp3_files\<close> loop.\<close>

definition process_file :: "loop_state \<Rightarrow> string \<Rightarrow> py_error + loop_state" where
  "process_file s mp3 =
     (if is_already_hashed mp3 then Inr (s\<lparr>filenames := filenames s @ [mp3]\<rparr>)
      else
        (case sha256_of_file (dir s) mp3 of
           Inl err \<Rightarrow> Inl err
         | Inr digest \<Rightarrow>
             (let content_hash = take HASH_LEN digest;
                  new_name = content_hash @ ''.mp3''
              in if exists_path (dir s) new_name \<and> new_name \<noteq> mp3
                 then (case sha256_of_file (dir s) mp3 of
                         Inl err \<Rightarrow> Inl err
                       | Inr full_hash \<Rightarrow>
                           rename_and_record s mp3 (take (HASH_LEN + 4) full_hash @ ''.mp3''))
                 else rename_and_record s mp3 new_name)))"

text \<open>The loop: an exception leaves it at once, with the renames done so far in place.\<close>

fun process_files :: "loop_state \<Rightarrow> string list \<Rightarrow> py_error option \<times> loop_state" where
  "process_files s [] = (None, s)"
| "process_files s (mp3 # rest) =
     (case process_file s mp3 of
        Inl err \<Rightarrow> (Some err, s)
      | Inr s' \<Rightarrow> process_files s' rest)"

definition main :: "world \<Rightarrow> exit_status \<times> world" where
  "main w =
     (case audio_dir w of
        None \<Rightarrow> (SysExit 1, w\<lparr>stderr := stderr w @ [Audio_directory_not_found]\<rparr>)
      | Some d \<Rightarrow>
          (let mp3_files = sort (glob_mp3 d)
           in if mp3_files = []
              then (SysExit 1, w\<lparr>stderr := stderr w @ [No_mp3_files_found]\<rparr>)
              else
                (let w1 = w\<lparr>stdout := stdout w @ [Found (length mp3_files)]\<rparr>
                 in case process_files \<lparr>dir = d, filenames = [], renamed_count = 0\<rparr> mp3_files of
                      (Some err, s) \<Rightarrow> (Uncaught err, w1\<lparr>audio_dir := Some (dir s)\<rparr>)
                    | (None, s) \<Rightarrow>
                        (Returned,
                         w1\<lparr>audio_dir := Some (dir s),
                            output_file := Some (Json_list (sort (filenames s))),
                            stdout := stdout w1 @ [Renamed (renamed_count s),
                                                   Wrote (length (sort (filenames s)))]\<rparr>))))"

section \<open>Notions the properties are stated with\<close>



text \<open>The manifest a run left in \<^verbatim>\<open>OUTPUT_FILE\<close>, if it holds one.\<close>

definition manifest :: "world \<Rightarrow> string list option" where
  "manifest w =
     (case output_file w of Some (Json_list names) \<Rightarrow> Some names | _ \<Rightarrow> None)"

text \<open>The names of the \<^verbatim>\<open>.mp3\<close> entries the directory holds.\<close>

definition mp3_names :: "world \<Rightarrow> string list" where
  "mp3_names w = (case audio_dir w of None \<Rightarrow> [] | Some d \<Rightarrow> glob_mp3 d)"




subsection \<open>Sample inputs\<close>

definition abc :: content where
  "abc = [0x61, 0x62, 0x63]"

definition world_of :: "directory \<Rightarrow> world" where
  "world_of d = \<lparr>audio_dir = Some d, output_file = None, stdout = [], stderr = []\<rparr>"

definition no_audio :: world where
  "no_audio = \<lparr>audio_dir = None, output_file = Some (Raw abc), stdout = [], stderr = []\<rparr>"

definition only_notes :: directory where
  "only_notes = [(''notes.txt'', File abc), (''cover.jpg'', File [])]"

definition mixed :: directory where
  "mixed = [(''zebra.mp3'', File abc), (''notes.txt'', File []), (''aaaaaaaaaaaa.mp3'', File [])]"

definition one_song :: directory where
  "one_song = [(''song.mp3'', File abc)]"



section \<open>Facts about the library model\<close>

lemma concat_chunks_of: "0 < n \<Longrightarrow> concat (chunks_of n xs) = xs"
proof (induction n xs rule: chunks_of.induct)
  case (1 n xs)
  then show ?case
    by (subst chunks_of.simps) auto
qed

lemma foldl_update: "foldl update h chunks = h @ concat chunks"
  by (induction chunks arbitrary: h) (simp_all add: update_def)

lemma length_regs_list: "length (regs_list r) = 8"
  by (induction r rule: regs_list.induct) simp

lemma length_compress: "length hs = 8 \<Longrightarrow> length (compress hs blk) = 8"
  by (simp add: compress_def length_regs_list)

lemma length_foldl_compress: "length hs = 8 \<Longrightarrow> length (foldl compress hs blks) = 8"
  by (induction blks arbitrary: hs) (simp_all add: length_compress)

lemma hex_digit_is_hex: "hex_digit n \<in> set hexdigits"
  unfolding hex_digit_def by (rule nth_mem) (simp add: hexdigits_def)

lemma length_hex_word: "length (hex_word w) = 8"
  by (simp add: hex_word_def)

lemma set_hex_word: "set (hex_word w) \<subseteq> set hexdigits"
  unfolding hex_word_def using hex_digit_is_hex by auto

lemma length_concat_const:
  "(\<And>x. x \<in> set xs \<Longrightarrow> length (f x) = k) \<Longrightarrow> length (concat (map f xs)) = k * length xs"
  by (induction xs) simp_all

lemma length_sha256_hex: "length (sha256_hex msg) = 64"
proof -
  have "length (foldl compress H256_init (chunks_of 64 (sha256_pad msg))) = 8"
    by (rule length_foldl_compress) (simp add: H256_init_def)
  then show ?thesis
    unfolding sha256_hex_def by (simp add: length_concat_const [where k = 8] length_hex_word)
qed

lemma set_sha256_hex: "set (sha256_hex msg) \<subseteq> set hexdigits"
  unfolding sha256_hex_def using set_hex_word by fastforce

lemma sha256_of_file_File:
  "map_of d path = Some (File bytes) \<Longrightarrow> sha256_of_file d path = Inr (sha256_hex bytes)"
  by (simp add: sha256_of_file_def hexdigest_def foldl_update sha256_new_def concat_chunks_of)

subsection \<open>The digest of the three bytes \<^verbatim>\<open>abc\<close>\<close>

lemma replicate_numeral: "replicate (numeral k) x = x # replicate (pred_numeral k) x"
  by (simp add: numeral_eq_Suc)

lemma sha256_pad_abc:
  "sha256_pad [0x61, 0x62, 0x63] =
     [97, 98, 99, 128, 0, 0, 0, 0, 0, 0, 0, 0, 0, 0, 0, 0, 0, 0, 0, 0, 0, 0, 0, 0, 0, 0, 0, 0, 0, 0, 0, 0,
      0, 0, 0, 0, 0, 0, 0, 0, 0, 0, 0, 0, 0, 0, 0, 0, 0, 0, 0, 0, 0, 0, 0, 0, 0, 0, 0, 0, 0, 0, 0, 24]"
  by (simp add: sha256_pad_def be_bytes_def replicate_numeral)

lemma block_words_abc:
  "block_words
     [97, 98, 99, 128, 0, 0, 0, 0, 0, 0, 0, 0, 0, 0, 0, 0, 0, 0, 0, 0, 0, 0, 0, 0, 0, 0, 0, 0, 0, 0, 0, 0,
      0, 0, 0, 0, 0, 0, 0, 0, 0, 0, 0, 0, 0, 0, 0, 0, 0, 0, 0, 0, 0, 0, 0, 0, 0, 0, 0, 0, 0, 0, 0, 24] =
     [1633837952, 0, 0, 0, 0, 0, 0, 0, 0, 0, 0, 0, 0, 0, 0, 24]"
  by (simp add: block_words_def chunks_of.simps be_word_def)

lemma schedule_abc:
  "schedule [1633837952, 0, 0, 0, 0, 0, 0, 0, 0, 0, 0, 0, 0, 0, 0, 24] =
     [1633837952, 0, 0, 0, 0, 0, 0, 0, 0, 0, 0, 0, 0, 0, 0, 24, 1633837952,
      983040, 2108187653, 1610613702, 1050508152, 25426944, 316456923,
      3806512014, 3357629466, 3073800610, 3854317833, 845560923, 2636160359,
      3968280267, 1881225380, 3552024379, 2482346367, 996719219, 2952069057,
      4043988066, 176896406, 1924104970, 2483675966, 610538786, 2672279444,
      4037431130, 1042573945, 657669027, 206005234, 2215296807, 2049510749,
      106709978, 4215179723, 3430291419, 3118885940, 2845390439, 2226839261,
      3256115900, 344409900, 2987358873, 4015503821, 3957764664, 2682456414,
      2025622859, 2755645205, 1720397816, 4004225740, 313650667]"
  by (simp add: schedule_def next_word_def small_sigma0_def small_sigma1_def rotr_def shr_def
      add32_def)

lemma rounds_abc:
  "foldl round256 (regs_of H256_init) (zip K256
     [1633837952, 0, 0, 0, 0, 0, 0, 0, 0, 0, 0, 0, 0, 0, 0, 24, 1633837952,
      983040, 2108187653, 1610613702, 1050508152, 25426944, 316456923,
      3806512014, 3357629466, 3073800610, 3854317833, 845560923, 2636160359,
      3968280267, 1881225380, 3552024379, 2482346367, 996719219, 2952069057,
      4043988066, 176896406, 1924104970, 2483675966, 610538786, 2672279444,
      4037431130, 1042573945, 657669027, 206005234, 2215296807, 2049510749,
      106709978, 4215179723, 3430291419, 3118885940, 2845390439, 2226839261,
      3256115900, 344409900, 2987358873, 4015503821, 3957764664, 2682456414,
      2025622859, 2755645205, 1720397816, 4004225740, 313650667]) =
   (1349398616, 3550093669, 80891244, 3093179625, 1593118500, 4212265488,
      2492278198, 2518632596)"
  by (simp add: regs_of_def H256_init_def K256_def big_sigma0_def big_sigma1_def Ch_def Maj_def
      rotr_def add32_def not32_def)

lemma compress_abc:
  "compress H256_init
     [97, 98, 99, 128, 0, 0, 0, 0, 0, 0, 0, 0, 0, 0, 0, 0, 0, 0, 0, 0, 0, 0, 0, 0, 0, 0, 0, 0, 0, 0, 0, 0,
      0, 0, 0, 0, 0, 0, 0, 0, 0, 0, 0, 0, 0, 0, 0, 0, 0, 0, 0, 0, 0, 0, 0, 0, 0, 0, 0, 0, 0, 0, 0, 24] =
     [3128432319, 2399260650, 1094795486, 1571693091, 2953011619, 2518121116, 3021012833,
      4060091821]"
  unfolding compress_def block_words_abc schedule_abc rounds_abc
  by (simp add: H256_init_def add32_def)

lemma sha256_hex_abc:
  "sha256_hex [0x61, 0x62, 0x63] =
     ''ba7816bf8f01cfea414140de5dae2223b00361a396177a9cb410ff61f20015ad''"
  unfolding sha256_hex_def sha256_pad_abc
  by (simp add: chunks_of.simps compress_abc hex_word_def hex_digit_def hexdigits_def)

section \<open>Names and the conformance check\<close>

lemma rfind_lower: "- 1 \<le> rfind c xs"
  by (induction xs) (auto simp: Let_def)

lemma rfind_absent: "c \<notin> set xs \<Longrightarrow> rfind c xs = - 1"
  by (induction xs) (auto simp: Let_def)

lemma rfind_last: "c \<notin> set ys \<Longrightarrow> rfind c (xs @ c # ys) = int (length xs)"
  by (induction xs) (auto simp: Let_def rfind_absent)

lemma stem_mp3: "s \<noteq> [] \<Longrightarrow> stem (s @ ''.mp3'') = s"
proof -
  assume "s \<noteq> []"
  have "rfind (CHR ''.'') (s @ CHR ''.'' # ''mp3'') = int (length s)"
    by (rule rfind_last) simp
  with \<open>s \<noteq> []\<close> show ?thesis
    by (simp add: stem_def Let_def)
qed









lemma fallback_not_conforming: "\<not> is_already_hashed (take 16 (sha256_hex bytes) @ ''.mp3'')"
proof -
  have "take 16 (sha256_hex bytes) \<noteq> []"
    using length_sha256_hex [of bytes] by auto
  then have "stem (take 16 (sha256_hex bytes) @ ''.mp3'') = take 16 (sha256_hex bytes)"
    by (rule stem_mp3)
  then show ?thesis
    by (simp add: is_already_hashed_def HASH_LEN_def length_sha256_hex)
qed

subsection \<open>Runs on the sample directories\<close>

lemmas run_defs =
  main_def world_of_def glob_mp3_def endswith_def process_file_def is_already_hashed_def
  stem_def HASH_LEN_def sha256_of_file_File sha256_hex_abc exists_path_def
  rename_and_record_def rename_def move_entry_def hexdigits_def abc_def Let_def



lemma main_again:
  "main \<lparr>audio_dir = Some [(''ba7816bf8f01cfea.mp3'', File abc), (''ba7816bf8f01.mp3'', File abc)],
         output_file = out, stdout = so, stderr = se\<rparr> =
     (Returned,
      \<lparr>audio_dir = Some [(''ba7816bf8f01cfea.mp3'', File abc), (''ba7816bf8f01.mp3'', File abc)],
       output_file = Some (Json_list [''ba7816bf8f01.mp3'', ''ba7816bf8f01cfea.mp3'']),
       stdout = so @ [Found 2, Renamed 1, Wrote 2], stderr = se\<rparr>)"
  by (simp add: run_defs)

lemma main_one_song:
  "main (world_of one_song) =
     (Returned,
      \<lparr>audio_dir = Some [(''ba7816bf8f01.mp3'', File abc)],
       output_file = Some (Json_list [''ba7816bf8f01.mp3'']),
       stdout = [Found 1, Renamed 1, Wrote 1], stderr = []\<rparr>)"
  by (simp add: run_defs one_song_def)

lemma main_mixed:
  "main (world_of mixed) =
     (Returned,
      \<lparr>audio_dir = Some [(''ba7816bf8f01.mp3'', File abc), (''notes.txt'', File []),
                          (''aaaaaaaaaaaa.mp3'', File [])],
       output_file = Some (Json_list [''aaaaaaaaaaaa.mp3'', ''ba7816bf8f01.mp3'']),
       stdout = [Found 2, Renamed 1, Wrote 2], stderr = []\<rparr>)"
  by (simp add: run_defs mixed_def)

section \<open>What a run that returns has done\<close>

lemma main_Returned:
  assumes "main w = (Returned, w')"
  obtains d s where "audio_dir w = Some d"
    and "sort (glob_mp3 d) \<noteq> []"
    and "process_files \<lparr>dir = d, filenames = [], renamed_count = 0\<rparr> (sort (glob_mp3 d)) = (None, s)"
    and "audio_dir w' = Some (dir s)"
    and "manifest w' = Some (sort (filenames s))"
    and "stdout w' = stdout w @ [Found (length (glob_mp3 d)), Renamed (renamed_count s),
           Wrote (length (filenames s))]"
    and "stderr w' = stderr w"
proof (cases "audio_dir w")
  case None
  with assms show ?thesis by (simp add: main_def)
next
  case (Some d)
  show ?thesis
  proof (cases "sort (glob_mp3 d) = []")
    case True
    with Some assms show ?thesis by (simp add: main_def)
  next
    case False
    obtain r s where run:
      "process_files \<lparr>dir = d, filenames = [], renamed_count = 0\<rparr> (sort (glob_mp3 d)) = (r, s)"
      by (cases "process_files \<lparr>dir = d, filenames = [], renamed_count = 0\<rparr> (sort (glob_mp3 d))")
    show ?thesis
    proof (cases r)
      case None
      with Some False run assms have
        "w' = w\<lparr>stdout := stdout w @ [Found (length (sort (glob_mp3 d)))],
              audio_dir := Some (dir s),
              output_file := Some (Json_list (sort (filenames s))),
              stdout := (stdout w @ [Found (length (sort (glob_mp3 d)))])
                 @ [Renamed (renamed_count s), Wrote (length (sort (filenames s)))]\<rparr>"
        by (simp add: main_def Let_def)
      then have "audio_dir w' = Some (dir s)"
        and "manifest w' = Some (sort (filenames s))"
        and "stdout w' = stdout w @ [Found (length (glob_mp3 d)), Renamed (renamed_count s),
           Wrote (length (filenames s))]"
        and "stderr w' = stderr w"
        by (simp_all add: manifest_def)
      with Some False run None that show ?thesis
        by blast
    next
      case (Some err)
      with \<open>audio_dir w = Some d\<close> False run assms show ?thesis
        by (simp add: main_def Let_def)
    qed
  qed
qed


subsection \<open>One pass of the loop body\<close>

lemma process_file_conforming:
  "is_already_hashed mp3 \<Longrightarrow> process_file s mp3 = Inr (s\<lparr>filenames := filenames s @ [mp3]\<rparr>)"
  by (simp add: process_file_def)






section \<open>The two fatal errors\<close>

text \<open>
  C7 (DirectoryNotFound). When \<^verbatim>\<open>AUDIO_DIR\<close> does not exist or is not a directory,
  the run ends with exit status 1, which is not zero, after writing the
  directory-not-found diagnostic to the error stream, and nothing else has changed: the
  directory is as it was (nothing renamed) and \<^verbatim>\<open>OUTPUT_FILE\<close> is untouched.
\<close>

theorem directory_not_found:
  assumes "audio_dir w = None"
  shows "main w = (SysExit 1, w\<lparr>stderr := stderr w @ [Audio_directory_not_found]\<rparr>)
    \<and> (1 :: nat) \<noteq> 0
    \<and> audio_dir (snd (main w)) = audio_dir w
    \<and> output_file (snd (main w)) = output_file w
    \<and> stdout (snd (main w)) = stdout w"
  using assms by (simp add: main_def)

theorem directory_not_found_witness:
  "audio_dir no_audio = None
   \<and> main no_audio =
       (SysExit 1,
        \<lparr>audio_dir = None, output_file = Some (Raw abc), stdout = [],
         stderr = [Audio_directory_not_found]\<rparr>)"
  using directory_not_found [of no_audio] by (simp add: no_audio_def)

text \<open>
  C8 (NoMatchingFiles). When \<^verbatim>\<open>AUDIO_DIR\<close> is a directory with no entry whose name
  ends in \<^verbatim>\<open>.mp3\<close>, the run ends with exit status 1 after writing the no-files
  diagnostic to the error stream; no file is renamed (the directory is as it was) and
  \<^verbatim>\<open>OUTPUT_FILE\<close> is neither created nor overwritten.
\<close>

theorem no_matching_files:
  assumes "audio_dir w = Some d" and "glob_mp3 d = []"
  shows "main w = (SysExit 1, w\<lparr>stderr := stderr w @ [No_mp3_files_found]\<rparr>)
    \<and> (1 :: nat) \<noteq> 0
    \<and> audio_dir (snd (main w)) = audio_dir w
    \<and> output_file (snd (main w)) = output_file w
    \<and> stdout (snd (main w)) = stdout w"
  using assms by (simp add: main_def)

theorem no_matching_files_witness:
  "audio_dir (world_of only_notes) = Some only_notes
   \<and> glob_mp3 only_notes = []
   \<and> main (world_of only_notes) =
       (SysExit 1,
        \<lparr>audio_dir = Some only_notes, output_file = None, stdout = [],
         stderr = [No_mp3_files_found]\<rparr>)"
proof -
  have dir: "audio_dir (world_of only_notes) = Some only_notes"
    by (simp add: world_of_def)
  have none: "glob_mp3 only_notes = []"
    by (simp add: glob_mp3_def only_notes_def endswith_def)
  from no_matching_files [OF dir none] dir none show ?thesis
    by (simp add: world_of_def)
qed

section \<open>The manifest of a run that returns\<close>

text \<open>
  C9 (sort order). Whenever the run returns, \<^verbatim>\<open>OUTPUT_FILE\<close> holds a list of names
  in non-decreasing lexicographic order, whatever the order in which the directory listed
  its entries and in which they were renamed.
\<close>

theorem manifest_sorted:
  assumes "main w = (Returned, w')"
  shows "\<exists>names. manifest w' = Some names \<and> sorted names"
  using assms by (elim main_Returned) simp

theorem manifest_sorted_witness:
  "main (world_of mixed) = (Returned, snd (main (world_of mixed)))
   \<and> manifest (snd (main (world_of mixed))) = Some [''aaaaaaaaaaaa.mp3'', ''ba7816bf8f01.mp3'']
   \<and> sorted [''aaaaaaaaaaaa.mp3'', ''ba7816bf8f01.mp3'']"
proof -
  have run: "main (world_of mixed) = (Returned, snd (main (world_of mixed)))"
    by (simp add: main_mixed)
  have "manifest (snd (main (world_of mixed))) = Some [''aaaaaaaaaaaa.mp3'', ''ba7816bf8f01.mp3'']"
    by (simp add: main_mixed manifest_def)
  with manifest_sorted [OF run] run show ?thesis
    by simp
qed



section \<open>The collision test\<close>





subsection \<open>Renaming\<close>

lemma rename_fresh:
  "map_of d src = Some e \<Longrightarrow> map_of d dst = None \<Longrightarrow> rename d src dst = Inr (move_entry d src dst e)"
  by (auto simp: rename_def split: entry.splits)

lemma rename_self: "map_of d src = Some e \<Longrightarrow> rename d src src = Inr d"
  by (simp add: rename_def)

lemma rename_over_file:
  "map_of d src = Some (File bytes) \<Longrightarrow> map_of d dst = Some (File old) \<Longrightarrow> src \<noteq> dst \<Longrightarrow>
   rename d src dst = Inr (move_entry d src dst (File bytes))"
  by (simp add: rename_def)

lemma rename_onto_dir:
  "map_of d src = Some (File bytes) \<Longrightarrow> map_of d dst = Some (Dir emp) \<Longrightarrow>
   rename d src dst = Inl IsADirectoryError"
  by (auto simp: rename_def)

lemma rename_file:
  assumes "map_of d src = Some (File bytes)" and "\<forall>emp. map_of d dst \<noteq> Some (Dir emp)"
  shows "rename d src dst = Inr (if src = dst then d else move_entry d src dst (File bytes))"
proof (cases "map_of d dst")
  case None
  with assms(1) show ?thesis
    by (auto simp: rename_fresh)
next
  case (Some e)
  with assms(2) obtain old where "e = File old"
    by (cases e) auto
  with Some assms(1) show ?thesis
    by (simp add: rename_self rename_over_file)
qed

subsection \<open>The order of the candidate and the fallback name\<close>

lemma append_le_append: "(xs @ ys \<le> xs @ zs) = (ys \<le> (zs :: string))"
  by (induction xs) simp_all

lemma dot_below_hex: "c \<in> set hexdigits \<Longrightarrow> CHR ''.'' < c"
  by (auto simp: hexdigits_def less_char_def)

lemma candidate_le_fallback:
  "take 12 (sha256_hex bytes) @ ''.mp3'' \<le> take 16 (sha256_hex bytes) @ ''.mp3''"
proof -
  define h where "h = sha256_hex bytes"
  have len: "length h = 64"
    by (simp add: h_def length_sha256_hex)
  then obtain c rest where tail: "take 4 (drop 12 h) = c # rest"
    by (cases "take 4 (drop 12 h)") auto
  then have "c \<in> set h"
    by (metis in_set_dropD in_set_takeD list.set_intros(1))
  then have "CHR ''.'' < c"
    using set_sha256_hex [of bytes] by (auto simp: h_def intro: dot_below_hex)
  then have "''.mp3'' \<le> (c # rest) @ ''.mp3''"
    by simp
  moreover have "take 16 h = take 12 h @ take 4 (drop 12 h)"
    using take_add [of 12 4 h] by simp
  ultimately show ?thesis
    unfolding h_def [symmetric] by (simp add: tail append_le_append del: append.simps)
qed

lemma candidate_neq_fallback:
  "take 12 (sha256_hex a) @ ''.mp3'' \<noteq> take 16 (sha256_hex b) @ ''.mp3''"
proof
  assume "take 12 (sha256_hex a) @ ''.mp3'' = take 16 (sha256_hex b) @ ''.mp3''"
  then have "length (take 12 (sha256_hex a) @ ''.mp3'') = length (take 16 (sha256_hex b) @ ''.mp3'')"
    by simp
  then show False
    by (simp add: length_sha256_hex)
qed

section \<open>Renaming to the digest prefix\<close>





end
